theory Spec2Isabelle
  imports Complex_Main "HOL-Library.Multiset"
begin

section \<open>Comparison results and JavaScript numbers\<close>

text \<open>
  A comparer is a function of two values returning a \<open>CompareResult\<close>, one of
  \<open>-1\<close>, \<open>0\<close>, \<open>1\<close>. Results are modelled as integers, so that the source's
  \<open>result !== 0\<close>, \<open>x || y\<close> and negation read as they are written.
\<close>

type_synonym 'a Comparer = "'a \<Rightarrow> 'a \<Rightarrow> int"

text \<open>
  A JavaScript \<open>number\<close> is not-a-number, one of the two infinities, or finite. A finite
  number is represented by its numeric value, a rational; \<open>+0\<close> and \<open>-0\<close> are one
  value, as they are for \<open>===\<close>, \<open><\<close>, \<open>>\<close> and the keys of a \<open>Map\<close>.
\<close>

datatype number = NaN | NegInfinity | Finite rat | PosInfinity

text \<open>
  Subtraction of numbers. On two finite numbers the model returns the exact difference:
  the rounded difference of two doubles has the sign of the exact one (it is zero only for
  equal operands, and an overflow keeps the sign), and the code only looks at that sign.
\<close>

fun minus_number :: "number \<Rightarrow> number \<Rightarrow> number" where
  "minus_number NaN _ = NaN"
| "minus_number _ NaN = NaN"
| "minus_number PosInfinity PosInfinity = NaN"
| "minus_number NegInfinity NegInfinity = NaN"
| "minus_number PosInfinity _ = PosInfinity"
| "minus_number NegInfinity _ = NegInfinity"
| "minus_number (Finite x) PosInfinity = NegInfinity"
| "minus_number (Finite x) NegInfinity = PosInfinity"
| "minus_number (Finite x) (Finite y) = Finite (x - y)"

text \<open>\<open>value > 0\<close> and \<open>value < 0\<close>: every comparison with not-a-number is false.\<close>

fun greater_zero :: "number \<Rightarrow> bool" where
  "greater_zero NaN = False"
| "greater_zero NegInfinity = False"
| "greater_zero (Finite x) = (x > 0)"
| "greater_zero PosInfinity = True"

fun less_zero :: "number \<Rightarrow> bool" where
  "less_zero NaN = False"
| "less_zero NegInfinity = True"
| "less_zero (Finite x) = (x < 0)"
| "less_zero PosInfinity = False"

definition sign :: "number \<Rightarrow> int" where
  "sign v = (if greater_zero v then 1 else if less_zero v then -1 else 0)"

text \<open>The host's \<open>isNaN\<close>, \<open>isFinite\<close> and \<open>===\<close> on numbers.\<close>

fun isNaN :: "number \<Rightarrow> bool" where
  "isNaN NaN = True"
| "isNaN _ = False"

fun isFinite :: "number \<Rightarrow> bool" where
  "isFinite (Finite x) = True"
| "isFinite _ = False"

definition strictEquals_number :: "number \<Rightarrow> number \<Rightarrow> bool" where
  "strictEquals_number a b = (a \<noteq> NaN \<and> b \<noteq> NaN \<and> a = b)"

section \<open>The combinators\<close>

definition compareEqual :: "'a Comparer" where
  "compareEqual a b = 0"

definition conditionFirstComparer ::
  "('a \<Rightarrow> bool) \<Rightarrow> 'a Comparer \<Rightarrow> 'a Comparer \<Rightarrow> 'a Comparer" where
  "conditionFirstComparer condition trueComparer falseComparer a b =
     (let aIsCondition = condition a;
          bIsCondition = condition b
      in if aIsCondition \<and> bIsCondition then trueComparer a b
         else if aIsCondition then -1
         else if bIsCondition then 1
         else falseComparer a b)"

text \<open>
  A type guard \<open>value is TOut\<close> tests a value of \<open>TIn\<close> and, where it answers true,
  lets the value be used at \<open>TOut\<close>; where it answers false the source passes the value
  on at \<open>Exclude<TIn, TOut>\<close> through \<open>as any\<close>. The guard is modelled as a function
  into a sum: \<open>Inl\<close> the value at the narrowed type (the guard answered true), \<open>Inr\<close> the
  value at the complementary type. The run of the comparer also records which of the
  two supplied comparers it called, with the arguments \<open>a\<close> and \<open>b\<close> as it received
  them.
\<close>

datatype 'a call = TrueComparerCall 'a 'a | FalseComparerCall 'a 'a

definition conditionTypeFirstComparer_run ::
  "('tin \<Rightarrow> 'tout + 'rest) \<Rightarrow> 'tout Comparer \<Rightarrow> 'rest Comparer
     \<Rightarrow> 'tin \<Rightarrow> 'tin \<Rightarrow> int \<times> 'tin call list" where
  "conditionTypeFirstComparer_run condition trueComparer falseComparer a b =
     (case (condition a, condition b) of
        (Inl a', Inl b') \<Rightarrow> (trueComparer a' b', [TrueComparerCall a b])
      | (Inl a', Inr b') \<Rightarrow> (-1, [])
      | (Inr a', Inl b') \<Rightarrow> (1, [])
      | (Inr a', Inr b') \<Rightarrow> (falseComparer a' b', [FalseComparerCall a b]))"

definition conditionTypeFirstComparer ::
  "('tin \<Rightarrow> 'tout + 'rest) \<Rightarrow> 'tout Comparer \<Rightarrow> 'rest Comparer \<Rightarrow> 'tin Comparer" where
  "conditionTypeFirstComparer condition trueComparer falseComparer a b =
     fst (conditionTypeFirstComparer_run condition trueComparer falseComparer a b)"

definition constFirstComparer :: "('a \<Rightarrow> 'a \<Rightarrow> bool) \<Rightarrow> 'a \<Rightarrow> 'a Comparer" where
  \<comment> \<open>The first argument is the host's \<open>===\<close> at the type of the items.\<close>
  "constFirstComparer strictEquals value =
     conditionFirstComparer (\<lambda>item. strictEquals item value) compareEqual compareEqual"

text \<open>
  A value of type \<open>T | null | undefined\<close>. \<open>isNullable\<close> and \<open>isNonNullable\<close> are the
  two type guards of the source.
\<close>

datatype 'a nullable = Null | Undefined | Present 'a

fun isNullable :: "'a nullable \<Rightarrow> 'a nullable + 'a" where
  "isNullable Null = Inl Null"
| "isNullable Undefined = Inl Undefined"
| "isNullable (Present x) = Inr x"

fun isNonNullable :: "'a nullable \<Rightarrow> 'a + 'a nullable" where
  "isNonNullable Null = Inr Null"
| "isNonNullable Undefined = Inr Undefined"
| "isNonNullable (Present x) = Inl x"

definition nullableFirstComparer_run ::
  "'a Comparer \<Rightarrow> 'a nullable \<Rightarrow> 'a nullable \<Rightarrow> int \<times> 'a nullable call list" where
  "nullableFirstComparer_run comparer =
     conditionTypeFirstComparer_run isNullable compareEqual comparer"

definition nullableFirstComparer :: "'a Comparer \<Rightarrow> 'a nullable Comparer" where
  "nullableFirstComparer comparer =
     conditionTypeFirstComparer isNullable compareEqual comparer"

definition nullableLastComparer_run ::
  "'a Comparer \<Rightarrow> 'a nullable \<Rightarrow> 'a nullable \<Rightarrow> int \<times> 'a nullable call list" where
  "nullableLastComparer_run comparer =
     conditionTypeFirstComparer_run isNonNullable comparer compareEqual"

definition nullableLastComparer :: "'a Comparer \<Rightarrow> 'a nullable Comparer" where
  "nullableLastComparer comparer =
     conditionTypeFirstComparer isNonNullable comparer compareEqual"

definition compareNullableFirst :: "'a nullable Comparer" where
  "compareNullableFirst = nullableFirstComparer compareEqual"

definition compareNanFirst :: "number Comparer" where
  "compareNanFirst = conditionFirstComparer isNaN compareEqual compareEqual"

definition comparePositiveInfinityFirst :: "number Comparer" where
  "comparePositiveInfinityFirst = constFirstComparer strictEquals_number PosInfinity"

definition compareNegativeInfinityFirst :: "number Comparer" where
  "compareNegativeInfinityFirst = constFirstComparer strictEquals_number NegInfinity"

definition compareFiniteNumber :: "number Comparer" where
  "compareFiniteNumber a b =
     (if isFinite a \<and> isFinite b then sign (minus_number a b) else 0)"

definition invertComparer :: "'a Comparer \<Rightarrow> 'a Comparer" where
  "invertComparer comparer a b = comparer b a"

text \<open>The \<open>for ... of\<close> loop over the comparers, leaving at the first non-zero result.\<close>

fun chainComparers :: "'a Comparer list \<Rightarrow> 'a Comparer" where
  "chainComparers [] a b = 0"
| "chainComparers (comparer # comparers) a b =
     (let result = comparer a b
      in if result \<noteq> 0 then result else chainComparers comparers a b)"

definition compareNumber :: "number Comparer" where
  "compareNumber =
     chainComparers
       [compareNanFirst,
        compareNegativeInfinityFirst,
        invertComparer comparePositiveInfinityFirst,
        compareFiniteNumber]"

text \<open>
  The string comparers call the host's collation, which is not part of the library: it is
  a parameter here, a function returning a negative, zero or positive integer.
\<close>

definition compareString :: "(string \<Rightarrow> string \<Rightarrow> int) \<Rightarrow> string Comparer" where
  "compareString localeCompare a b = sign (Finite (of_int (localeCompare a b)))"

definition localeComparer ::
  "(string \<Rightarrow> string \<Rightarrow> string \<Rightarrow> int) \<Rightarrow> string \<Rightarrow> string Comparer" where
  "localeComparer localeCompareIn locale a b =
     sign (Finite (of_int (localeCompareIn locale a b)))"

record Collator =
  compare :: "string \<Rightarrow> string \<Rightarrow> int"

definition collatorComparer :: "Collator \<Rightarrow> string Comparer" where
  "collatorComparer collator a b = sign (Finite (of_int (compare collator a b)))"

definition mapComparer :: "'b Comparer \<Rightarrow> ('a \<Rightarrow> 'b) \<Rightarrow> 'a Comparer" where
  "mapComparer comparer mapper a b = comparer (mapper a) (mapper b)"

text \<open>A \<open>Date\<close> holds its time value, which is not-a-number for an invalid date.\<close>

record Date =
  getTime :: number

definition compareDate :: "Date Comparer" where
  "compareDate = mapComparer compareFiniteNumber getTime"

definition compareBoolean :: "bool Comparer" where
  "compareBoolean a b = (if a = b then 0 else if a then 1 else -1)"

text \<open>
  \<open>new Map(entries)\<close> sets the entries one after the other, in the order of the array, so
  a later entry with a key already present replaces the value of the earlier one. The
  keys of a \<open>Map\<close> are compared by SameValueZero, which is equality of the model's
  values.
\<close>

definition orderComparer_lookup :: "'a list \<Rightarrow> ('a \<rightharpoonup> nat)" where
  "orderComparer_lookup ordering' =
     fold (\<lambda>(item, index) lookup. lookup(item \<mapsto> index))
       (zip ordering' [0..<length ordering']) Map.empty"

definition orderComparer_indexOf :: "'a list \<Rightarrow> 'a \<Rightarrow> nat" where
  "orderComparer_indexOf ordering' item =
     (case orderComparer_lookup ordering' item of
        Some index \<Rightarrow> index
      | None \<Rightarrow> length ordering')"

definition orderComparer :: "'a list \<Rightarrow> 'a Comparer" where
  "orderComparer ordering' a b =
     sign (minus_number (Finite (of_nat (orderComparer_indexOf ordering' a)))
                        (Finite (of_nat (orderComparer_indexOf ordering' b))))"

text \<open>
  The table of \<open>groupComparer\<close> is an object indexed by key: a map from a key to the
  comparer that the object has under it. Calling the entry of a key that the table does
  not have throws a \<open>TypeError\<close>; the table is read only when the key comparer has
  returned \<open>0\<close>, since \<open>||\<close> evaluates its right operand only then. A comparer returns a
  \<open>CompareResult\<close>, never \<open>null\<close> or \<open>undefined\<close>, so \<open>?? 0\<close> leaves its result as it is.
\<close>

datatype error = TypeError

definition groupComparer ::
  "('k \<rightharpoonup> 'v Comparer) \<Rightarrow> ('v \<Rightarrow> 'k) \<Rightarrow> 'k Comparer \<Rightarrow> 'v \<Rightarrow> 'v \<Rightarrow> error + int" where
  "groupComparer compareFns keyFn keyCompareFn a b =
     (let keyA = keyFn a;
          keyB = keyFn b;
          keyResult = keyCompareFn keyA keyB
      in if keyResult \<noteq> 0 then Inr keyResult
         else (case compareFns keyA of
                 None \<Rightarrow> Inl TypeError
               | Some compareFn \<Rightarrow> Inr (compareFn a b)))"

text \<open>
  The loop of \<open>arrayComparer\<close>, from \<open>index\<close> on. Both reads are in range, since
  \<open>index\<close> is below both lengths.
\<close>

function arrayComparer_loop :: "'a Comparer \<Rightarrow> 'a list \<Rightarrow> 'a list \<Rightarrow> nat \<Rightarrow> int" where
  "arrayComparer_loop itemComparer a b index =
     (if index < min (length a) (length b)
      then (let result = itemComparer (a ! index) (b ! index)
            in if result \<noteq> 0 then result
               else arrayComparer_loop itemComparer a b (index + 1))
      else compareNumber (Finite (of_nat (length a))) (Finite (of_nat (length b))))"
  by pat_completeness auto
termination
  by (relation "measure (\<lambda>(itemComparer, a, b, index). min (length a) (length b) - index)") auto

declare arrayComparer_loop.simps [simp del]

definition arrayComparer :: "'a Comparer \<Rightarrow> 'a list Comparer" where
  "arrayComparer itemComparer a b = arrayComparer_loop itemComparer a b 0"

section \<open>Numbers or strings, and the natural order of strings\<close>

text \<open>A value of type \<open>number | string\<close>, and the type guard \<open>isNumber\<close> on it.\<close>

datatype token = Num number | Str string

fun isNumber :: "token \<Rightarrow> number + string" where
  "isNumber (Num n) = Inl n"
| "isNumber (Str s) = Inr s"

definition compareNumberOrString :: "(string \<Rightarrow> string \<Rightarrow> int) \<Rightarrow> token Comparer" where
  "compareNumberOrString localeCompare =
     conditionTypeFirstComparer isNumber compareNumber (compareString localeCompare)"

text \<open>
  The regular expression \<open>/([0-9]+)|([^0-9]+)/g\<close>. A match starts where the previous one
  ended. The first alternative is tried first and is greedy: at a digit it takes the whole
  run of digits into group 1. Otherwise the second alternative takes the whole run of
  characters that are not digits into group 2. Every character is of one of the two kinds,
  so no position is skipped. Exactly one group takes part in a match, and its text is not
  empty; the other group is \<open>undefined\<close>. A string is the list of its characters; the
  expression only tells the ten decimal digits from all other characters.
\<close>

definition isDigit :: "char \<Rightarrow> bool" where
  "isDigit c = (48 \<le> (of_char c :: nat) \<and> (of_char c :: nat) \<le> 57)"

datatype regExpMatch =
  inGroup1: Group1 (matchText: string)
| Group2 (matchText: string)

function matchAll :: "string \<Rightarrow> regExpMatch list" where
  "matchAll [] = []"
| "matchAll (c # cs) =
     (if isDigit c
      then Group1 (takeWhile isDigit (c # cs)) # matchAll (dropWhile isDigit (c # cs))
      else Group2 (takeWhile (\<lambda>d. \<not> isDigit d) (c # cs))
             # matchAll (dropWhile (\<lambda>d. \<not> isDigit d) (c # cs)))"
  by pat_completeness auto
termination
  by (relation "measure length") (simp_all add: length_dropWhile_le le_imp_less_Suc)

declare matchAll.simps [simp del]

text \<open>
  \<open>parseInt(digits, 10)\<close> on a non-empty string of decimal digits is the Number value
  for the integer that the digits spell: the integer itself when it fits the 53 bits of a
  double's significand, and otherwise the integer rounded to 53 significant bits, to the
  nearest and to the even one in a tie, or positive infinity from \<open>2 ^ 1024\<close> on.
\<close>

definition digitValue :: "char \<Rightarrow> nat" where
  "digitValue c = of_char c - 48"

definition mathematicalValue :: "string \<Rightarrow> nat" where
  "mathematicalValue digits = foldl (\<lambda>n c. 10 * n + digitValue c) 0 digits"

fun bitLength :: "nat \<Rightarrow> nat" where
  "bitLength n = (if n = 0 then 0 else Suc (bitLength (n div 2)))"

declare bitLength.simps [simp del]

definition numberValue :: "nat \<Rightarrow> number" where
  "numberValue n =
     (if bitLength n \<le> 53 then Finite (of_nat n)
      else (let e = bitLength n - 53;
                q = n div 2 ^ e;
                r = n mod 2 ^ e;
                half = 2 ^ (e - 1);
                q' = (if half < r \<or> (r = half \<and> odd q) then q + 1 else q)
            in if 2 ^ 1024 \<le> q' * 2 ^ e then PosInfinity
               else Finite (of_nat (q' * 2 ^ e))))"

definition parseInt :: "string \<Rightarrow> number" where
  "parseInt digits = numberValue (mathematicalValue digits)"

definition matchToken :: "regExpMatch \<Rightarrow> token" where
  \<comment> \<open>\<open>match[1] ? parseInt(match[1], 10) : match[2]\<close>: the text of group 1 is truthy
      when the group took part, and \<open>undefined\<close> is falsy when it did not.\<close>
  "matchToken match = (case match of Group1 digits \<Rightarrow> Num (parseInt digits) | Group2 text \<Rightarrow> Str text)"

definition tokens :: "string \<Rightarrow> token list" where
  "tokens value = map matchToken (matchAll value)"

definition compareStringNatural :: "(string \<Rightarrow> string \<Rightarrow> int) \<Rightarrow> string Comparer" where
  "compareStringNatural localeCompare =
     mapComparer (arrayComparer (compareNumberOrString localeCompare)) tokens"

section \<open>The host's stable sort\<close>

text \<open>
  The library does not sort: the caller's stable sort does, with a comparer. It is
  modelled as the insertion sort that puts each item, from the last to the first, in front
  of the first item of the sorted rest that it does not come after, which keeps the
  items that compare equal in their original order.
\<close>

fun insertSorted :: "'a Comparer \<Rightarrow> 'a \<Rightarrow> 'a list \<Rightarrow> 'a list" where
  "insertSorted comparer x [] = [x]"
| "insertSorted comparer x (y # ys) =
     (if comparer x y \<le> 0 then x # y # ys else y # insertSorted comparer x ys)"

definition toSorted :: "'a Comparer \<Rightarrow> 'a list \<Rightarrow> 'a list" where
  "toSorted comparer items = foldr (insertSorted comparer) items []"

section \<open>Example data\<close>

text \<open>
  The classifier of the library's test of \<open>groupComparer\<close>,
  \<open>(item) => (item % 2 === 0 ? "even" : "odd")\<close>, on integers, and \<open>compareNumber\<close> on
  numbers that are integers.
\<close>

definition parity :: "int \<Rightarrow> string" where
  "parity item = (if item mod 2 = 0 then ''even'' else ''odd'')"

definition compareInteger :: "int Comparer" where
  "compareInteger = mapComparer compareNumber (\<lambda>item. Finite (of_int item))"

section \<open>Properties of comparers\<close>

definition antiSymmetric :: "'a Comparer \<Rightarrow> bool" where
  "antiSymmetric comparer = (\<forall>a b. comparer a b = - comparer b a)"

definition reflexive :: "'a Comparer \<Rightarrow> bool" where
  "reflexive comparer = (\<forall>a. comparer a a = 0)"

section \<open>Partitioning by a condition\<close>

text \<open>
  C1. For every predicate \<open>p\<close> and comparers \<open>t\<close>, \<open>f\<close>, the comparer
  \<open>conditionFirstComparer p t f\<close> returns \<open>t a b\<close> when \<open>p\<close> holds of both arguments,
  \<open>f a b\<close> when it holds of neither, \<open>-1\<close> when it holds of \<open>a\<close> only and \<open>1\<close> when it
  holds of \<open>b\<close> only; \<open>conditionTypeFirstComparer\<close> partitions in the same way by its
  type guard, calling its two comparers on the narrowed values.
\<close>

theorem conditionFirstComparer_partition:
  "(p a \<and> p b \<longrightarrow> conditionFirstComparer p t f a b = t a b) \<and>
   (\<not> p a \<and> \<not> p b \<longrightarrow> conditionFirstComparer p t f a b = f a b) \<and>
   (p a \<and> \<not> p b \<longrightarrow> conditionFirstComparer p t f a b = -1) \<and>
   (\<not> p a \<and> p b \<longrightarrow> conditionFirstComparer p t f a b = 1) \<and>
   (g c = Inl x \<and> g d = Inl y \<longrightarrow> conditionTypeFirstComparer g t' f' c d = t' x y) \<and>
   (g c = Inr u \<and> g d = Inr v \<longrightarrow> conditionTypeFirstComparer g t' f' c d = f' u v) \<and>
   (g c = Inl x \<and> g d = Inr v \<longrightarrow> conditionTypeFirstComparer g t' f' c d = -1) \<and>
   (g c = Inr u \<and> g d = Inl y \<longrightarrow> conditionTypeFirstComparer g t' f' c d = 1)"
  by (simp add: conditionFirstComparer_def conditionTypeFirstComparer_def
      conditionTypeFirstComparer_run_def)

text \<open>
  The theorem at concrete inputs, one for each of its eight cases: not-a-number first
  among numbers, and numbers first among numbers and strings (strings compared by
  length here).
\<close>

theorem conditionFirstComparer_partition_witness:
  "(isNaN NaN \<and> isNaN NaN \<and>
      conditionFirstComparer isNaN compareEqual compareFiniteNumber NaN NaN = 0) \<and>
   (\<not> isNaN (Finite 1) \<and> \<not> isNaN (Finite 2) \<and>
      conditionFirstComparer isNaN compareEqual compareFiniteNumber (Finite 1) (Finite 2) = -1) \<and>
   (isNaN NaN \<and> \<not> isNaN (Finite 1) \<and>
      conditionFirstComparer isNaN compareEqual compareFiniteNumber NaN (Finite 1) = -1) \<and>
   (\<not> isNaN (Finite 1) \<and> isNaN NaN \<and>
      conditionFirstComparer isNaN compareEqual compareFiniteNumber (Finite 1) NaN = 1) \<and>
   (isNumber (Num (Finite 2)) = Inl (Finite 2) \<and> isNumber (Num (Finite 1)) = Inl (Finite 1) \<and>
      conditionTypeFirstComparer isNumber compareFiniteNumber
        (compareString (\<lambda>s t. int (length s) - int (length t)))
        (Num (Finite 2)) (Num (Finite 1)) = 1) \<and>
   (isNumber (Str ''ab'') = Inr ''ab'' \<and> isNumber (Str ''c'') = Inr ''c'' \<and>
      conditionTypeFirstComparer isNumber compareFiniteNumber
        (compareString (\<lambda>s t. int (length s) - int (length t)))
        (Str ''ab'') (Str ''c'') = 1) \<and>
   (isNumber (Num (Finite 2)) = Inl (Finite 2) \<and> isNumber (Str ''c'') = Inr ''c'' \<and>
      conditionTypeFirstComparer isNumber compareFiniteNumber
        (compareString (\<lambda>s t. int (length s) - int (length t)))
        (Num (Finite 2)) (Str ''c'') = -1) \<and>
   (isNumber (Str ''c'') = Inr ''c'' \<and> isNumber (Num (Finite 2)) = Inl (Finite 2) \<and>
      conditionTypeFirstComparer isNumber compareFiniteNumber
        (compareString (\<lambda>s t. int (length s) - int (length t)))
        (Str ''c'') (Num (Finite 2)) = 1)"
proof -
  let ?f = "compareString (\<lambda>s t. int (length s) - int (length t))"
  note part = conditionFirstComparer_partition
  have evals:
    "compareEqual NaN NaN = 0"
    "compareFiniteNumber (Finite 1) (Finite 2) = -1"
    "compareFiniteNumber (Finite 2) (Finite 1) = 1"
    "?f ''ab'' ''c'' = 1"
    by (simp_all add: compareEqual_def compareFiniteNumber_def compareString_def sign_def)
  have 1: "conditionFirstComparer isNaN compareEqual compareFiniteNumber NaN NaN = 0"
    using part [where p = isNaN and t = compareEqual and f = compareFiniteNumber
        and a = NaN and b = NaN, THEN conjunct1] evals
    by simp
  have 2: "conditionFirstComparer isNaN compareEqual compareFiniteNumber (Finite 1) (Finite 2) = -1"
    using part [where p = isNaN and t = compareEqual and f = compareFiniteNumber
        and a = "Finite 1" and b = "Finite 2", THEN conjunct2, THEN conjunct1] evals
    by simp
  have 3: "conditionFirstComparer isNaN compareEqual compareFiniteNumber NaN (Finite 1) = -1"
    using part [where p = isNaN and t = compareEqual and f = compareFiniteNumber
        and a = NaN and b = "Finite 1", THEN conjunct2, THEN conjunct2, THEN conjunct1]
    by simp
  have 4: "conditionFirstComparer isNaN compareEqual compareFiniteNumber (Finite 1) NaN = 1"
    using part [where p = isNaN and t = compareEqual and f = compareFiniteNumber
        and a = "Finite 1" and b = NaN, THEN conjunct2, THEN conjunct2, THEN conjunct2,
        THEN conjunct1]
    by simp
  have 5: "conditionTypeFirstComparer isNumber compareFiniteNumber ?f
      (Num (Finite 2)) (Num (Finite 1)) = 1"
    using part [where g = isNumber and t' = compareFiniteNumber and f' = ?f
        and c = "Num (Finite 2)" and d = "Num (Finite 1)" and x = "Finite 2"
        and y = "Finite 1", THEN conjunct2, THEN conjunct2, THEN conjunct2, THEN conjunct2,
        THEN conjunct1] evals
    by simp
  have 6: "conditionTypeFirstComparer isNumber compareFiniteNumber ?f
      (Str ''ab'') (Str ''c'') = 1"
    using part [where g = isNumber and t' = compareFiniteNumber and f' = ?f
        and c = "Str ''ab''" and d = "Str ''c''" and u = "''ab''" and v = "''c''",
        THEN conjunct2, THEN conjunct2, THEN conjunct2, THEN conjunct2,
        THEN conjunct2, THEN conjunct1] evals
    by simp
  have 7: "conditionTypeFirstComparer isNumber compareFiniteNumber ?f
      (Num (Finite 2)) (Str ''c'') = -1"
    using part [where g = isNumber and t' = compareFiniteNumber and f' = ?f
        and c = "Num (Finite 2)" and d = "Str ''c''" and x = "Finite 2" and v = "''c''",
        THEN conjunct2, THEN conjunct2, THEN conjunct2, THEN conjunct2,
        THEN conjunct2, THEN conjunct2, THEN conjunct1]
    by simp
  have 8: "conditionTypeFirstComparer isNumber compareFiniteNumber ?f
      (Str ''c'') (Num (Finite 2)) = 1"
    using part [where g = isNumber and t' = compareFiniteNumber and f' = ?f
        and c = "Str ''c''" and d = "Num (Finite 2)" and u = "''c''" and y = "Finite 2",
        THEN conjunct2, THEN conjunct2, THEN conjunct2, THEN conjunct2,
        THEN conjunct2, THEN conjunct2, THEN conjunct2]
    by simp
  show ?thesis
    using 1 2 3 4 5 6 7 8 by simp
qed

section \<open>Sorted lists\<close>

text \<open>
  A list that a comparer orders strictly has one sorted permutation only: whatever the
  sort, its result on a permutation of such a list is that list.
\<close>

lemma sorted_permutation_unique:
  fixes c :: "'a Comparer"
  assumes "sorted_wrt (\<lambda>a b. c a b < 0 \<and> 0 < c b a) xs"
    and "mset ys = mset xs"
    and "sorted_wrt (\<lambda>a b. c a b \<le> 0) ys"
  shows "ys = xs"
  using assms
proof (induction xs arbitrary: ys)
  case Nil
  then show ?case by simp
next
  case (Cons x xs)
  from Cons.prems(2) obtain y ys' where ys: "ys = y # ys'"
    by (cases ys) auto
  have "y = x"
  proof (rule ccontr)
    assume neq: "y \<noteq> x"
    have "set ys = set (x # xs)"
      using Cons.prems(2) by (rule mset_eq_setD)
    with neq ys have "x \<in> set ys'" and "y \<in> set xs"
      by auto
    with Cons.prems(1,3) ys have "c y x \<le> 0" and "0 < c y x"
      by auto
    then show False by simp
  qed
  moreover from this Cons.prems ys have "ys' = xs"
    by (intro Cons.IH) auto
  ultimately show ?case
    using ys by simp
qed

section \<open>The order of numbers\<close>

lemmas number_comparer_defs =
  compareNumber_def compareNanFirst_def compareNegativeInfinityFirst_def
  comparePositiveInfinityFirst_def compareFiniteNumber_def constFirstComparer_def
  conditionFirstComparer_def invertComparer_def compareEqual_def strictEquals_number_def
  sign_def

lemma compareNumber_NaN_left: "b \<noteq> NaN \<Longrightarrow> compareNumber NaN b = -1"
  by (cases b) (simp_all add: number_comparer_defs)

lemma compareNumber_NaN_right: "a \<noteq> NaN \<Longrightarrow> compareNumber a NaN = 1"
  by (cases a) (simp_all add: number_comparer_defs)

lemma compareNumber_same_class:
  "compareNumber NaN NaN = 0"
  "compareNumber NegInfinity NegInfinity = 0"
  "compareNumber PosInfinity PosInfinity = 0"
  by (simp_all add: number_comparer_defs)

lemma compareNumber_infinities:
  "compareNumber NegInfinity (Finite x) = -1"
  "compareNumber (Finite x) NegInfinity = 1"
  "compareNumber NegInfinity PosInfinity = -1"
  "compareNumber PosInfinity NegInfinity = 1"
  "compareNumber (Finite x) PosInfinity = -1"
  "compareNumber PosInfinity (Finite x) = 1"
  by (simp_all add: number_comparer_defs)

lemma compareNumber_Finite:
  "compareNumber (Finite x) (Finite y) = (if x < y then -1 else if y < x then 1 else 0)"
  by (simp add: number_comparer_defs)

lemmas compareNumber_table =
  compareNumber_NaN_left compareNumber_NaN_right compareNumber_same_class
  compareNumber_infinities compareNumber_Finite

text \<open>
  C2. \<open>compareNumber\<close> puts not-a-number before negative infinity, negative infinity
  before every finite number, the finite numbers in ascending order and positive infinity
  after everything else; two not-a-number values compare equal, as do two negative and
  two positive infinities. The stable sort of \<open>[1, NaN, -Infinity, 0, Infinity]\<close> by it is
  \<open>[NaN, -Infinity, 0, 1, Infinity]\<close>, and no other permutation of that list is ascending
  for \<open>compareNumber\<close>.
\<close>

theorem compareNumber_global_order:
  "compareNumber NaN NaN = 0 \<and>
   compareNumber NegInfinity NegInfinity = 0 \<and>
   compareNumber PosInfinity PosInfinity = 0 \<and>
   compareNumber NaN NegInfinity = -1 \<and> compareNumber NegInfinity NaN = 1 \<and>
   compareNumber NaN (Finite x) = -1 \<and> compareNumber (Finite x) NaN = 1 \<and>
   compareNumber NaN PosInfinity = -1 \<and> compareNumber PosInfinity NaN = 1 \<and>
   compareNumber NegInfinity (Finite x) = -1 \<and> compareNumber (Finite x) NegInfinity = 1 \<and>
   compareNumber NegInfinity PosInfinity = -1 \<and> compareNumber PosInfinity NegInfinity = 1 \<and>
   compareNumber (Finite x) PosInfinity = -1 \<and> compareNumber PosInfinity (Finite x) = 1 \<and>
   compareNumber (Finite x) (Finite y) = (if x < y then -1 else if y < x then 1 else 0) \<and>
   toSorted compareNumber [Finite 1, NaN, NegInfinity, Finite 0, PosInfinity] =
     [NaN, NegInfinity, Finite 0, Finite 1, PosInfinity] \<and>
   (mset ys = mset [Finite 1, NaN, NegInfinity, Finite 0, PosInfinity] \<and>
    sorted_wrt (\<lambda>a b. compareNumber a b \<le> 0) ys
    \<longrightarrow> ys = [NaN, NegInfinity, Finite 0, Finite 1, PosInfinity])"
proof -
  have unique: "ys = [NaN, NegInfinity, Finite 0, Finite 1, PosInfinity]"
    if m: "mset ys = mset [Finite 1, NaN, NegInfinity, Finite 0, PosInfinity]"
      and s: "sorted_wrt (\<lambda>a b. compareNumber a b \<le> 0) ys"
  proof -
    have "sorted_wrt (\<lambda>a b. compareNumber a b < 0 \<and> 0 < compareNumber b a)
        [NaN, NegInfinity, Finite 0, Finite 1, PosInfinity]"
      by (simp add: compareNumber_table)
    moreover have "mset ys = mset [NaN, NegInfinity, Finite 0, Finite 1, PosInfinity]"
      using m by (simp add: ac_simps)
    ultimately show ?thesis
      using s by (rule sorted_permutation_unique)
  qed
  show ?thesis
    using unique by (simp add: toSorted_def compareNumber_table)
qed

text \<open>
  The theorem at the finite numbers \<open>0\<close> and \<open>1\<close> and at the sorted list: it is a
  permutation of the input and ascending, and so is the result of the stable sort.
\<close>

theorem compareNumber_global_order_witness:
  "mset [NaN, NegInfinity, Finite 0, Finite 1, PosInfinity]
     = mset [Finite 1, NaN, NegInfinity, Finite 0, PosInfinity] \<and>
   sorted_wrt (\<lambda>a b. compareNumber a b \<le> 0) [NaN, NegInfinity, Finite 0, Finite 1, PosInfinity] \<and>
   mset (toSorted compareNumber [Finite 1, NaN, NegInfinity, Finite 0, PosInfinity])
     = mset [Finite 1, NaN, NegInfinity, Finite 0, PosInfinity] \<and>
   sorted_wrt (\<lambda>a b. compareNumber a b \<le> 0)
     (toSorted compareNumber [Finite 1, NaN, NegInfinity, Finite 0, PosInfinity]) \<and>
   compareNumber (Finite 0) (Finite 1) = -1"
proof -
  let ?input = "[Finite 1, NaN, NegInfinity, Finite 0, PosInfinity]"
  let ?sorted = "[NaN, NegInfinity, Finite 0, Finite 1, PosInfinity]"
  note inst = compareNumber_global_order [where x = 0 and y = 1 and ys = ?sorted]
  have perm: "mset ?sorted = mset ?input"
    by (simp add: ac_simps)
  have less: "compareNumber (Finite 0) (Finite 1) = -1"
    using inst by simp
  have ascending: "sorted_wrt (\<lambda>a b. compareNumber a b \<le> 0) ?sorted"
    using inst compareNumber_global_order [where x = 1] less by simp
  have result: "toSorted compareNumber ?input = ?sorted"
    using inst by blast
  show ?thesis
    using perm less ascending by (simp add: result)
qed

section \<open>Values that may be null or undefined\<close>

text \<open>
  C9. \<open>nullableFirstComparer c\<close> passes \<open>c\<close> as the comparer of the values that fail
  the guard \<open>isNullable\<close>, and \<open>nullableLastComparer c\<close> as the comparer of the values
  that pass \<open>isNonNullable\<close>. In every run, a call of \<open>c\<close> has two arguments that are
  neither \<open>null\<close> nor \<open>undefined\<close>; on two such arguments \<open>c\<close> is called once, on them,
  and its result is the result.
\<close>

theorem nullable_comparers_call_comparer_on_present_values:
  "(FalseComparerCall x y \<in> set (snd (nullableFirstComparer_run c a b))
      \<longrightarrow> x \<noteq> Null \<and> x \<noteq> Undefined \<and> y \<noteq> Null \<and> y \<noteq> Undefined) \<and>
   (TrueComparerCall x y \<in> set (snd (nullableLastComparer_run c a b))
      \<longrightarrow> x \<noteq> Null \<and> x \<noteq> Undefined \<and> y \<noteq> Null \<and> y \<noteq> Undefined) \<and>
   nullableFirstComparer_run c (Present u) (Present v) =
      (c u v, [FalseComparerCall (Present u) (Present v)]) \<and>
   nullableLastComparer_run c (Present u) (Present v) =
      (c u v, [TrueComparerCall (Present u) (Present v)]) \<and>
   nullableFirstComparer c a b = fst (nullableFirstComparer_run c a b) \<and>
   nullableLastComparer c a b = fst (nullableLastComparer_run c a b)"
  by (cases a; cases b)
    (simp_all add: nullableFirstComparer_run_def nullableLastComparer_run_def
      nullableFirstComparer_def nullableLastComparer_def conditionTypeFirstComparer_def
      conditionTypeFirstComparer_run_def)

text \<open>The theorem at the values \<open>1\<close> and \<open>2\<close>, compared by \<open>compareNumber\<close>.\<close>

theorem nullable_comparers_call_comparer_on_present_values_witness:
  "FalseComparerCall (Present (Finite 1)) (Present (Finite 2))
     \<in> set (snd (nullableFirstComparer_run compareNumber (Present (Finite 1)) (Present (Finite 2)))) \<and>
   TrueComparerCall (Present (Finite 1)) (Present (Finite 2))
     \<in> set (snd (nullableLastComparer_run compareNumber (Present (Finite 1)) (Present (Finite 2)))) \<and>
   Present (Finite 1) \<noteq> Null \<and> Present (Finite 1) \<noteq> Undefined \<and>
   Present (Finite 2) \<noteq> Null \<and> Present (Finite 2) \<noteq> Undefined \<and>
   nullableFirstComparer compareNumber (Present (Finite 1)) (Present (Finite 2)) = -1 \<and>
   nullableLastComparer compareNumber (Present (Finite 1)) (Present (Finite 2)) = -1"
proof -
  let ?a = "Present (Finite 1)" and ?b = "Present (Finite 2)"
  note run = nullable_comparers_call_comparer_on_present_values [where c = compareNumber
      and a = ?a and b = ?b and x = ?a and y = ?b and u = "Finite 1" and v = "Finite 2"]
  have first: "nullableFirstComparer_run compareNumber ?a ?b = (-1, [FalseComparerCall ?a ?b])"
    using run [THEN conjunct2, THEN conjunct2, THEN conjunct1]
    by (simp add: compareNumber_Finite)
  have last: "nullableLastComparer_run compareNumber ?a ?b = (-1, [TrueComparerCall ?a ?b])"
    using run [THEN conjunct2, THEN conjunct2, THEN conjunct2, THEN conjunct1]
    by (simp add: compareNumber_Finite)
  have called: "FalseComparerCall ?a ?b \<in> set (snd (nullableFirstComparer_run compareNumber ?a ?b))"
    "TrueComparerCall ?a ?b \<in> set (snd (nullableLastComparer_run compareNumber ?a ?b))"
    using first last by simp_all
  have present: "?a \<noteq> Null \<and> ?a \<noteq> Undefined \<and> ?b \<noteq> Null \<and> ?b \<noteq> Undefined"
    using run [THEN conjunct1] called(1) by blast
  have results: "nullableFirstComparer compareNumber ?a ?b = -1"
    "nullableLastComparer compareNumber ?a ?b = -1"
    using run [THEN conjunct2, THEN conjunct2, THEN conjunct2, THEN conjunct2] first last
    by simp_all
  show ?thesis
    using called present results by blast
qed

section \<open>Comparing arrays\<close>

lemma arrayComparer_loop_first:
  "index \<le> i \<Longrightarrow> i < min (length a) (length b) \<Longrightarrow> c (a ! i) (b ! i) \<noteq> 0 \<Longrightarrow>
   (\<forall>j. index \<le> j \<and> j < i \<longrightarrow> c (a ! j) (b ! j) = 0) \<Longrightarrow>
   arrayComparer_loop c a b index = c (a ! i) (b ! i)"
proof (induction c a b index rule: arrayComparer_loop.induct)
  case (1 c a b index)
  show ?case
  proof (cases "index = i")
    case True
    with 1 show ?thesis
      by (subst arrayComparer_loop.simps) simp
  next
    case False
    with 1 have lt: "index < i" and z: "c (a ! index) (b ! index) = 0"
      by auto
    have "arrayComparer_loop c a b (index + 1) = c (a ! i) (b ! i)"
      using 1 lt z by (intro "1.IH") auto
    with 1 lt z show ?thesis
      by (subst arrayComparer_loop.simps) simp
  qed
qed

lemma arrayComparer_loop_all_equal:
  "(\<forall>j. index \<le> j \<and> j < min (length a) (length b) \<longrightarrow> c (a ! j) (b ! j) = 0) \<Longrightarrow>
   arrayComparer_loop c a b index =
     compareNumber (Finite (of_nat (length a))) (Finite (of_nat (length b)))"
proof (induction c a b index rule: arrayComparer_loop.induct)
  case (1 c a b index)
  show ?case
  proof (cases "index < min (length a) (length b)")
    case True
    with 1 have z: "c (a ! index) (b ! index) = 0" by auto
    have "arrayComparer_loop c a b (index + 1) =
       compareNumber (Finite (of_nat (length a))) (Finite (of_nat (length b)))"
      using 1 True z by (intro "1.IH") auto
    with True z show ?thesis
      by (subst arrayComparer_loop.simps) simp
  next
    case False
    then show ?thesis
      by (subst arrayComparer_loop.simps) auto
  qed
qed

text \<open>
  C3. \<open>arrayComparer c a b\<close> is the result of \<open>c\<close> at the first index, below the length of
  the shorter array, where \<open>c\<close> is not \<open>0\<close>. If \<open>c\<close> is \<open>0\<close> at every index that both arrays
  have, the result is the sign of the difference of the lengths: the shorter array comes
  first, and arrays of equal length compare equal.
\<close>

theorem arrayComparer_first_difference:
  "(i < min (length a) (length b) \<and> c (a ! i) (b ! i) \<noteq> 0 \<and>
      (\<forall>j<i. c (a ! j) (b ! j) = 0)
     \<longrightarrow> arrayComparer c a b = c (a ! i) (b ! i)) \<and>
   ((\<forall>j<min (length a) (length b). c (a ! j) (b ! j) = 0)
     \<longrightarrow> arrayComparer c a b =
          (if length a < length b then -1 else if length b < length a then 1 else 0))"
  by (auto simp add: arrayComparer_def arrayComparer_loop_first
      arrayComparer_loop_all_equal compareNumber_Finite)

text \<open>
  The theorem at the arrays \<open>[1, 2]\<close> and \<open>[1, 3, 0]\<close>, which differ at index 1, and at
  \<open>[1]\<close> and \<open>[1, 1]\<close>, where the shorter array is a prefix of the longer one.
\<close>

theorem arrayComparer_first_difference_witness:
  "((1::nat) < min (length [Finite 1, Finite 2]) (length [Finite 1, Finite 3, Finite 0]) \<and>
    compareNumber ([Finite 1, Finite 2] ! 1) ([Finite 1, Finite 3, Finite 0] ! 1) \<noteq> 0 \<and>
    compareNumber ([Finite 1, Finite 2] ! 0) ([Finite 1, Finite 3, Finite 0] ! 0) = 0 \<and>
    arrayComparer compareNumber [Finite 1, Finite 2] [Finite 1, Finite 3, Finite 0] = -1) \<and>
   (min (length [Finite 1]) (length [Finite 1, Finite 1]) = 1 \<and>
    compareNumber ([Finite 1] ! 0) ([Finite 1, Finite 1] ! 0) = 0 \<and>
    arrayComparer compareNumber [Finite 1] [Finite 1, Finite 1] = -1)"
proof -
  have h1: "(1::nat) < min (length [Finite 1, Finite 2]) (length [Finite 1, Finite 3, Finite 0]) \<and>
    compareNumber ([Finite 1, Finite 2] ! 1) ([Finite 1, Finite 3, Finite 0] ! 1) \<noteq> 0 \<and>
    (\<forall>j<1. compareNumber ([Finite 1, Finite 2] ! j) ([Finite 1, Finite 3, Finite 0] ! j) = 0)"
    by (simp add: compareNumber_Finite)
  have h2: "\<forall>j<min (length [Finite 1]) (length [Finite 1, Finite 1]).
       compareNumber ([Finite 1] ! j) ([Finite 1, Finite 1] ! j) = 0"
    by (simp add: compareNumber_Finite)
  have r1: "arrayComparer compareNumber [Finite 1, Finite 2] [Finite 1, Finite 3, Finite 0] = -1"
    using arrayComparer_first_difference [where c = compareNumber and i = 1
        and a = "[Finite 1, Finite 2]" and b = "[Finite 1, Finite 3, Finite 0]", THEN conjunct1] h1
    by (simp add: compareNumber_Finite)
  have r2: "arrayComparer compareNumber [Finite 1] [Finite 1, Finite 1] = -1"
    using arrayComparer_first_difference [where c = compareNumber
        and a = "[Finite 1]" and b = "[Finite 1, Finite 1]", THEN conjunct2] h2
    by simp
  show ?thesis using h1 h2 r1 r2 by simp
qed

section \<open>A predefined order\<close>

lemma orderComparer_lookup_snoc:
  "orderComparer_lookup (xs @ [y]) = (orderComparer_lookup xs)(y \<mapsto> length xs)"
  by (simp add: orderComparer_lookup_def)

lemma orderComparer_lookup_absent:
  "x \<notin> set xs \<Longrightarrow> orderComparer_lookup xs x = None"
proof (induction xs rule: rev_induct)
  case Nil
  show ?case by (simp add: orderComparer_lookup_def)
next
  case (snoc y ys)
  then show ?case by (simp add: orderComparer_lookup_snoc)
qed

lemma orderComparer_lookup_present:
  "x \<in> set xs \<Longrightarrow>
   \<exists>i. orderComparer_lookup xs x = Some i \<and> i < length xs \<and> xs ! i = x \<and>
       (\<forall>j<length xs. xs ! j = x \<longrightarrow> j \<le> i)"
proof (induction xs rule: rev_induct)
  case Nil
  then show ?case by simp
next
  case (snoc y ys)
  show ?case
  proof (cases "x = y")
    case True
    then show ?thesis
      by (auto simp add: orderComparer_lookup_snoc)
  next
    case False
    with snoc.prems have "x \<in> set ys" by simp
    from snoc.IH [OF this] obtain i where
      i: "orderComparer_lookup ys x = Some i" "i < length ys" "ys ! i = x"
         "\<forall>j<length ys. ys ! j = x \<longrightarrow> j \<le> i"
      by blast
    have "\<forall>j<length (ys @ [y]). (ys @ [y]) ! j = x \<longrightarrow> j \<le> i"
      using i(4) False by (auto simp add: nth_append less_Suc_eq)
    with i False show ?thesis
      by (auto simp add: orderComparer_lookup_snoc nth_append)
  qed
qed

lemma orderComparer_indexOf_absent:
  "x \<notin> set xs \<Longrightarrow> orderComparer_indexOf xs x = length xs"
  by (simp add: orderComparer_indexOf_def orderComparer_lookup_absent)

lemma orderComparer_indexOf_present:
  assumes "x \<in> set xs"
  shows "orderComparer_indexOf xs x < length xs"
    and "xs ! orderComparer_indexOf xs x = x"
    and "\<forall>j<length xs. xs ! j = x \<longrightarrow> j \<le> orderComparer_indexOf xs x"
  using orderComparer_lookup_present [OF assms]
  by (auto simp add: orderComparer_indexOf_def)

lemma orderComparer_sign:
  "orderComparer xs a b =
     (if orderComparer_indexOf xs a < orderComparer_indexOf xs b then -1
      else if orderComparer_indexOf xs b < orderComparer_indexOf xs a then 1 else 0)"
  by (simp add: orderComparer_def sign_def)

text \<open>
  C4. \<open>orderComparer s\<close> gives each value of \<open>s\<close> an index in \<open>s\<close> at which it occurs,
  and that index is the one of its last occurrence: the lookup table is filled in the
  order of \<open>s\<close>, and a later entry replaces an earlier one with the same key. A value
  that is not in \<open>s\<close> gets the index \<open>s.length\<close>, so such values compare equal to each
  other and come after every listed value. The result is the sign of the difference of
  the two indexes.
\<close>

theorem orderComparer_last_occurrence:
  "(x \<in> set s \<longrightarrow>
      orderComparer_indexOf s x < length s \<and> s ! orderComparer_indexOf s x = x \<and>
      (\<forall>j<length s. s ! j = x \<longrightarrow> j \<le> orderComparer_indexOf s x)) \<and>
   (x \<notin> set s \<longrightarrow> orderComparer_indexOf s x = length s) \<and>
   orderComparer s a b =
     (if orderComparer_indexOf s a < orderComparer_indexOf s b then -1
      else if orderComparer_indexOf s b < orderComparer_indexOf s a then 1 else 0) \<and>
   (a \<notin> set s \<and> b \<notin> set s \<longrightarrow> orderComparer s a b = 0) \<and>
   (a \<in> set s \<and> b \<notin> set s \<longrightarrow> orderComparer s a b = -1 \<and> orderComparer s b a = 1)"
  using orderComparer_indexOf_present [of x s] orderComparer_indexOf_present(1) [of a s]
  by (auto simp add: orderComparer_sign orderComparer_indexOf_absent)

text \<open>
  The theorem at the ordering \<open>["a", "b", "a"]\<close>, with the listed value \<open>"a"\<close> and
  the unlisted values \<open>"z"\<close> and \<open>"y"\<close>.
\<close>

theorem orderComparer_last_occurrence_witness:
  "''a'' \<in> set [''a'', ''b'', ''a''] \<and>
   orderComparer_indexOf [''a'', ''b'', ''a''] ''a'' = 2 \<and>
   ''z'' \<notin> set [''a'', ''b'', ''a''] \<and> ''y'' \<notin> set [''a'', ''b'', ''a''] \<and>
   orderComparer_indexOf [''a'', ''b'', ''a''] ''z'' = 3 \<and>
   orderComparer [''a'', ''b'', ''a''] ''z'' ''y'' = 0 \<and>
   orderComparer [''a'', ''b'', ''a''] ''a'' ''z'' = -1 \<and>
   orderComparer [''a'', ''b'', ''a''] ''z'' ''a'' = 1"
proof -
  let ?s = "[''a'', ''b'', ''a'']"
  have mem: "''a'' \<in> set ?s" "''z'' \<notin> set ?s" "''y'' \<notin> set ?s"
    by simp_all
  note present = orderComparer_last_occurrence [where s = ?s and x = "''a''", THEN conjunct1]
  have "orderComparer_indexOf ?s ''a'' < 3" and "2 \<le> orderComparer_indexOf ?s ''a''"
    using present mem(1) by (simp, simp)
  then have i: "orderComparer_indexOf ?s ''a'' = 2"
    by simp
  have z: "orderComparer_indexOf ?s ''z'' = 3"
    using orderComparer_last_occurrence [where s = ?s and x = "''z''",
        THEN conjunct2, THEN conjunct1] mem(2)
    by simp
  have zy: "orderComparer ?s ''z'' ''y'' = 0"
    using orderComparer_last_occurrence [where s = ?s and a = "''z''" and b = "''y''",
        THEN conjunct2, THEN conjunct2, THEN conjunct2, THEN conjunct1] mem
    by simp
  have az: "orderComparer ?s ''a'' ''z'' = -1 \<and> orderComparer ?s ''z'' ''a'' = 1"
    using orderComparer_last_occurrence [where s = ?s and a = "''a''" and b = "''z''",
        THEN conjunct2, THEN conjunct2, THEN conjunct2, THEN conjunct2] mem
    by simp
  show ?thesis
    using mem i z zy az by simp
qed

text \<open>
  With the first occurrence winning, \<open>"a"\<close> would have the index \<open>0\<close> in
  \<open>["a", "b", "a"]\<close> and come before \<open>"b"\<close>. It has the index \<open>2\<close> and comes after.
\<close>

theorem orderComparer_first_occurrence_counterexample:
  "[''a'', ''b'', ''a''] ! 0 = ''a'' \<and>
   orderComparer_indexOf [''a'', ''b'', ''a''] ''a'' = 2 \<and>
   orderComparer_indexOf [''a'', ''b'', ''a''] ''a'' \<noteq> 0 \<and>
   orderComparer [''a'', ''b'', ''a''] ''a'' ''b'' = 1 \<and>
   orderComparer [''a'', ''b'', ''a''] ''a'' ''b'' \<noteq> -1"
  by (simp add: orderComparer_def orderComparer_indexOf_def orderComparer_lookup_def sign_def)

section \<open>Comparing by group\<close>

lemma compareInteger_eq:
  "compareInteger x y = (if x < y then -1 else if y < x then 1 else 0)"
  by (simp add: compareInteger_def mapComparer_def compareNumber_Finite)




section \<open>Booleans\<close>

text \<open>
  C5. \<open>compareBoolean\<close> returns \<open>0\<close> on equal booleans. On different ones the code
  returns \<open>1\<close> for \<open>(true, false)\<close> and \<open>-1\<close> for \<open>(false, true)\<close>: it orders false
  before true, where its documentation orders true before false.
\<close>

theorem compareBoolean_orders_false_first:
  "compareBoolean a a = 0 \<and>
   compareBoolean True False = 1 \<and>
   compareBoolean False True = -1 \<and>
   toSorted compareBoolean [False, True, False] = [False, False, True]"
  by (simp add: compareBoolean_def toSorted_def)

section \<open>The natural order of strings\<close>

























section \<open>Anti-symmetry\<close>

lemma antiSymmetricI: "(\<And>a b. c a b = - c b a) \<Longrightarrow> antiSymmetric c"
  unfolding antiSymmetric_def by blast

lemma antiSymmetricD: "antiSymmetric c \<Longrightarrow> c a b = - c b a"
  unfolding antiSymmetric_def by blast

lemma antiSymmetric_compareEqual: "antiSymmetric compareEqual"
  by (simp add: antiSymmetric_def compareEqual_def)

lemma antiSymmetric_conditionFirstComparer:
  assumes "antiSymmetric t" and "antiSymmetric f"
  shows "antiSymmetric (conditionFirstComparer p t f)"
proof (rule antiSymmetricI)
  fix a b
  have "t a b = - t b a" and "f a b = - f b a"
    using assms [THEN antiSymmetricD] by blast+
  then show "conditionFirstComparer p t f a b = - conditionFirstComparer p t f b a"
    by (auto simp add: conditionFirstComparer_def Let_def)
qed

lemma antiSymmetric_conditionTypeFirstComparer:
  assumes "antiSymmetric t" and "antiSymmetric f"
  shows "antiSymmetric (conditionTypeFirstComparer g t f)"
proof (rule antiSymmetricI)
  fix a b
  note t = assms(1) [THEN antiSymmetricD] and f = assms(2) [THEN antiSymmetricD]
  show "conditionTypeFirstComparer g t f a b = - conditionTypeFirstComparer g t f b a"
    by (cases "g a"; cases "g b")
      (simp_all add: conditionTypeFirstComparer_def conditionTypeFirstComparer_run_def
        t [symmetric] f [symmetric])
qed

lemma antiSymmetric_constFirstComparer: "antiSymmetric (constFirstComparer eq v)"
  by (simp add: constFirstComparer_def antiSymmetric_conditionFirstComparer
      antiSymmetric_compareEqual)

lemma antiSymmetric_nullableFirstComparer:
  "antiSymmetric c \<Longrightarrow> antiSymmetric (nullableFirstComparer c)"
  by (simp add: nullableFirstComparer_def antiSymmetric_conditionTypeFirstComparer
      antiSymmetric_compareEqual)

lemma antiSymmetric_nullableLastComparer:
  "antiSymmetric c \<Longrightarrow> antiSymmetric (nullableLastComparer c)"
  by (simp add: nullableLastComparer_def antiSymmetric_conditionTypeFirstComparer
      antiSymmetric_compareEqual)

lemma antiSymmetric_compareNullableFirst: "antiSymmetric compareNullableFirst"
  by (simp add: compareNullableFirst_def antiSymmetric_nullableFirstComparer
      antiSymmetric_compareEqual)

lemma antiSymmetric_compareNanFirst: "antiSymmetric compareNanFirst"
  by (simp add: compareNanFirst_def antiSymmetric_conditionFirstComparer
      antiSymmetric_compareEqual)

lemma antiSymmetric_compareInfinityFirst:
  "antiSymmetric comparePositiveInfinityFirst" "antiSymmetric compareNegativeInfinityFirst"
  by (simp_all add: comparePositiveInfinityFirst_def compareNegativeInfinityFirst_def
      antiSymmetric_constFirstComparer)

lemma antiSymmetric_compareFiniteNumber: "antiSymmetric compareFiniteNumber"
proof (rule antiSymmetricI)
  fix a b
  show "compareFiniteNumber a b = - compareFiniteNumber b a"
    by (cases a; cases b) (auto simp add: compareFiniteNumber_def sign_def)
qed

lemma antiSymmetric_invertComparer: "antiSymmetric c \<Longrightarrow> antiSymmetric (invertComparer c)"
  unfolding antiSymmetric_def invertComparer_def by blast

lemma antiSymmetric_chainComparers:
  "(\<forall>c\<in>set cs. antiSymmetric c) \<Longrightarrow> antiSymmetric (chainComparers cs)"
proof (induction cs)
  case Nil
  show ?case by (simp add: antiSymmetric_def)
next
  case (Cons c cs)
  from Cons.prems have c: "antiSymmetric c" and "\<forall>c\<in>set cs. antiSymmetric c"
    by simp_all
  then have cs: "antiSymmetric (chainComparers cs)"
    using Cons.IH by blast
  show ?case
  proof (rule antiSymmetricI)
    fix a b
    have "c a b = - c b a" and "chainComparers cs a b = - chainComparers cs b a"
      using c [THEN antiSymmetricD] cs [THEN antiSymmetricD] by blast+
    then show "chainComparers (c # cs) a b = - chainComparers (c # cs) b a"
      by (simp add: Let_def)
  qed
qed

lemma antiSymmetric_compareNumber: "antiSymmetric compareNumber"
  unfolding compareNumber_def
  by (rule antiSymmetric_chainComparers)
    (simp add: antiSymmetric_compareNanFirst antiSymmetric_compareInfinityFirst
      antiSymmetric_invertComparer antiSymmetric_compareFiniteNumber)

lemma sign_of_int: "sign (Finite (of_int k)) = sgn k"
  by (simp add: sign_def sgn_if)

lemma antiSymmetric_compareString:
  assumes "antiSymmetric (\<lambda>a b. sgn (lc a b))"
  shows "antiSymmetric (compareString lc)"
proof (rule antiSymmetricI)
  fix a b
  have "sgn (lc a b) = - sgn (lc b a)"
    using assms [THEN antiSymmetricD] by blast
  then show "compareString lc a b = - compareString lc b a"
    by (simp only: compareString_def sign_of_int)
qed

lemma antiSymmetric_localeComparer:
  assumes "antiSymmetric (\<lambda>a b. sgn (lcl locale a b))"
  shows "antiSymmetric (localeComparer lcl locale)"
proof (rule antiSymmetricI)
  fix a b
  have "sgn (lcl locale a b) = - sgn (lcl locale b a)"
    using assms [THEN antiSymmetricD] by blast
  then show "localeComparer lcl locale a b = - localeComparer lcl locale b a"
    by (simp only: localeComparer_def sign_of_int)
qed

lemma antiSymmetric_collatorComparer:
  assumes "antiSymmetric (\<lambda>a b. sgn (compare collator a b))"
  shows "antiSymmetric (collatorComparer collator)"
proof (rule antiSymmetricI)
  fix a b
  have "sgn (compare collator a b) = - sgn (compare collator b a)"
    using assms [THEN antiSymmetricD] by blast
  then show "collatorComparer collator a b = - collatorComparer collator b a"
    by (simp only: collatorComparer_def sign_of_int)
qed

lemma antiSymmetric_mapComparer: "antiSymmetric c \<Longrightarrow> antiSymmetric (mapComparer c m)"
  unfolding antiSymmetric_def mapComparer_def by blast

lemma antiSymmetric_compareDate: "antiSymmetric compareDate"
  by (simp add: compareDate_def antiSymmetric_mapComparer antiSymmetric_compareFiniteNumber)

lemma antiSymmetric_compareBoolean: "antiSymmetric compareBoolean"
  by (auto simp add: antiSymmetric_def compareBoolean_def)

lemma antiSymmetric_orderComparer: "antiSymmetric (orderComparer s)"
  by (simp add: antiSymmetric_def orderComparer_def sign_def)

lemma arrayComparer_loop_antiSymmetric:
  "antiSymmetric c \<Longrightarrow>
   arrayComparer_loop c a b index = - arrayComparer_loop c b a index"
proof (induction c a b index rule: arrayComparer_loop.induct)
  case (1 c a b index)
  have c: "c (a ! index) (b ! index) = - c (b ! index) (a ! index)"
    using "1.prems" [THEN antiSymmetricD] by blast
  have n: "compareNumber (Finite (of_nat (length a))) (Finite (of_nat (length b))) =
      - compareNumber (Finite (of_nat (length b))) (Finite (of_nat (length a)))"
    using antiSymmetric_compareNumber [THEN antiSymmetricD] by blast
  show ?case
  proof (cases "index < min (length a) (length b)")
    case True
    show ?thesis
    proof (cases "c (a ! index) (b ! index) = 0")
      case z: True
      with True "1.prems" have "arrayComparer_loop c a b (index + 1) =
          - arrayComparer_loop c b a (index + 1)"
        by (intro "1.IH") auto
      with True z c show ?thesis
        by (subst arrayComparer_loop.simps, subst (2) arrayComparer_loop.simps)
          (simp add: min.commute)
    next
      case False
      with True c show ?thesis
        by (subst arrayComparer_loop.simps, subst (2) arrayComparer_loop.simps)
          (simp add: min.commute)
    qed
  next
    case False
    with n show ?thesis
      by (subst arrayComparer_loop.simps, subst (2) arrayComparer_loop.simps) auto
  qed
qed

lemma antiSymmetric_arrayComparer: "antiSymmetric c \<Longrightarrow> antiSymmetric (arrayComparer c)"
  unfolding arrayComparer_def
  by (rule antiSymmetricI) (rule arrayComparer_loop_antiSymmetric)

lemma antiSymmetric_compareNumberOrString:
  "antiSymmetric (\<lambda>a b. sgn (lc a b)) \<Longrightarrow> antiSymmetric (compareNumberOrString lc)"
  by (simp add: compareNumberOrString_def antiSymmetric_conditionTypeFirstComparer
      antiSymmetric_compareNumber antiSymmetric_compareString)

lemma antiSymmetric_compareStringNatural:
  "antiSymmetric (\<lambda>a b. sgn (lc a b)) \<Longrightarrow> antiSymmetric (compareStringNatural lc)"
  by (simp add: compareStringNatural_def antiSymmetric_mapComparer antiSymmetric_arrayComparer
      antiSymmetric_compareNumberOrString)

lemma antiSymmetric_groupComparer:
  assumes "antiSymmetric kc" and "\<forall>k k'. kc k k' = 0 \<longrightarrow> k = k'"
    and "compareFns (keyFn a) = Some ca" and "antiSymmetric ca"
  shows "\<exists>r. groupComparer compareFns keyFn kc a b = Inr r \<and>
             groupComparer compareFns keyFn kc b a = Inr (- r)"
proof -
  have kc: "kc (keyFn b) (keyFn a) = - kc (keyFn a) (keyFn b)"
    using assms(1) [THEN antiSymmetricD] by blast
  show ?thesis
  proof (cases "kc (keyFn a) (keyFn b) = 0")
    case True
    with assms(2) have k: "keyFn b = keyFn a" by metis
    have ca: "ca b a = - ca a b"
      using assms(4) [THEN antiSymmetricD] by blast
    have "groupComparer compareFns keyFn kc a b = Inr (ca a b)"
      using True assms(3) by (simp add: groupComparer_def)
    moreover have "groupComparer compareFns keyFn kc b a = Inr (- ca a b)"
      using True kc assms(3) ca by (simp add: groupComparer_def k)
    ultimately show ?thesis by blast
  next
    case False
    then have "groupComparer compareFns keyFn kc a b = Inr (kc (keyFn a) (keyFn b))"
      and "groupComparer compareFns keyFn kc b a = Inr (- kc (keyFn a) (keyFn b))"
      using kc by (simp_all add: groupComparer_def)
    then show ?thesis by blast
  qed
qed

section \<open>Reflexivity\<close>

lemma reflexiveI: "(\<And>a. c a a = 0) \<Longrightarrow> reflexive c"
  unfolding reflexive_def by blast

lemma reflexiveD: "reflexive c \<Longrightarrow> c a a = 0"
  unfolding reflexive_def by blast

lemma reflexive_compareEqual: "reflexive compareEqual"
  by (simp add: reflexive_def compareEqual_def)

lemma reflexive_conditionFirstComparer:
  "reflexive t \<Longrightarrow> reflexive f \<Longrightarrow> reflexive (conditionFirstComparer p t f)"
  by (simp add: reflexive_def conditionFirstComparer_def Let_def)

lemma reflexive_conditionTypeFirstComparer:
  assumes "reflexive t" and "reflexive f"
  shows "reflexive (conditionTypeFirstComparer g t f)"
proof (rule reflexiveI)
  fix a
  show "conditionTypeFirstComparer g t f a a = 0"
    using assms
    by (cases "g a")
      (simp_all add: conditionTypeFirstComparer_def conditionTypeFirstComparer_run_def
        reflexive_def)
qed

lemma reflexive_constFirstComparer: "reflexive (constFirstComparer eq v)"
  by (simp add: constFirstComparer_def reflexive_conditionFirstComparer reflexive_compareEqual)

lemma reflexive_nullableFirstComparer: "reflexive c \<Longrightarrow> reflexive (nullableFirstComparer c)"
  by (simp add: nullableFirstComparer_def reflexive_conditionTypeFirstComparer
      reflexive_compareEqual)

lemma reflexive_nullableLastComparer: "reflexive c \<Longrightarrow> reflexive (nullableLastComparer c)"
  by (simp add: nullableLastComparer_def reflexive_conditionTypeFirstComparer
      reflexive_compareEqual)

lemma reflexive_compareNullableFirst: "reflexive compareNullableFirst"
  by (simp add: compareNullableFirst_def reflexive_nullableFirstComparer reflexive_compareEqual)

lemma reflexive_compareNanFirst: "reflexive compareNanFirst"
  by (simp add: compareNanFirst_def reflexive_conditionFirstComparer reflexive_compareEqual)

lemma reflexive_compareInfinityFirst:
  "reflexive comparePositiveInfinityFirst" "reflexive compareNegativeInfinityFirst"
  by (simp_all add: comparePositiveInfinityFirst_def compareNegativeInfinityFirst_def
      reflexive_constFirstComparer)

lemma reflexive_compareFiniteNumber: "reflexive compareFiniteNumber"
proof (rule reflexiveI)
  fix a
  show "compareFiniteNumber a a = 0"
    by (cases a) (simp_all add: compareFiniteNumber_def sign_def)
qed

lemma reflexive_invertComparer: "reflexive c \<Longrightarrow> reflexive (invertComparer c)"
  by (simp add: reflexive_def invertComparer_def)

lemma reflexive_chainComparers:
  "(\<forall>c\<in>set cs. reflexive c) \<Longrightarrow> reflexive (chainComparers cs)"
  by (induction cs) (simp_all add: reflexive_def Let_def)

lemma reflexive_compareNumber: "reflexive compareNumber"
  unfolding compareNumber_def
  by (rule reflexive_chainComparers)
    (simp add: reflexive_compareNanFirst reflexive_compareInfinityFirst
      reflexive_invertComparer reflexive_compareFiniteNumber)

lemma reflexive_compareString: "reflexive lc \<Longrightarrow> reflexive (compareString lc)"
  by (simp add: reflexive_def compareString_def sign_def)

lemma reflexive_localeComparer:
  "reflexive (lcl locale) \<Longrightarrow> reflexive (localeComparer lcl locale)"
  by (simp add: reflexive_def localeComparer_def sign_def)

lemma reflexive_collatorComparer:
  "reflexive (compare collator) \<Longrightarrow> reflexive (collatorComparer collator)"
  by (simp add: reflexive_def collatorComparer_def sign_def)

lemma reflexive_mapComparer: "reflexive c \<Longrightarrow> reflexive (mapComparer c m)"
  by (simp add: reflexive_def mapComparer_def)

lemma reflexive_compareDate: "reflexive compareDate"
  by (simp add: compareDate_def reflexive_mapComparer reflexive_compareFiniteNumber)

lemma reflexive_compareBoolean: "reflexive compareBoolean"
  by (simp add: reflexive_def compareBoolean_def)

lemma reflexive_orderComparer: "reflexive (orderComparer s)"
  by (simp add: reflexive_def orderComparer_sign)

lemma reflexive_arrayComparer:
  assumes "reflexive c"
  shows "reflexive (arrayComparer c)"
proof (rule reflexiveI)
  fix a
  have "\<forall>j. 0 \<le> j \<and> j < min (length a) (length a) \<longrightarrow> c (a ! j) (a ! j) = 0"
    using assms by (simp add: reflexive_def)
  then have "arrayComparer_loop c a a 0 =
      compareNumber (Finite (of_nat (length a))) (Finite (of_nat (length a)))"
    by (rule arrayComparer_loop_all_equal)
  then show "arrayComparer c a a = 0"
    by (simp add: arrayComparer_def compareNumber_Finite)
qed

lemma reflexive_compareNumberOrString:
  "reflexive lc \<Longrightarrow> reflexive (compareNumberOrString lc)"
  by (simp add: compareNumberOrString_def reflexive_conditionTypeFirstComparer
      reflexive_compareNumber reflexive_compareString)

lemma reflexive_compareStringNatural:
  "reflexive lc \<Longrightarrow> reflexive (compareStringNatural lc)"
  by (simp add: compareStringNatural_def reflexive_mapComparer reflexive_arrayComparer
      reflexive_compareNumberOrString)

lemma reflexive_groupComparer:
  "reflexive kc \<Longrightarrow> compareFns (keyFn a) = Some ca \<Longrightarrow> reflexive ca \<Longrightarrow>
   groupComparer compareFns keyFn kc a a = Inr 0"
  by (simp add: groupComparer_def reflexive_def Let_def)

section \<open>Anti-symmetry of the exported comparers\<close>

text \<open>
  C7. Every exported comparer is anti-symmetric, \<open>compare a b = - compare b a\<close>: the
  constant ones as they are, those that call the host's collation when the sign of the
  collation is anti-symmetric, and those made by a combinator when the comparers given
  to the combinator are anti-symmetric. For \<open>groupComparer\<close> this needs more: a key
  comparer that returns \<open>0\<close> on equal keys only, and a table with an entry for the key of
  the first argument.
\<close>

theorem comparers_antiSymmetric:
  "antiSymmetric compareEqual \<and>
   (antiSymmetric t \<and> antiSymmetric f \<longrightarrow> antiSymmetric (conditionFirstComparer p t f)) \<and>
   (antiSymmetric tg \<and> antiSymmetric fg \<longrightarrow> antiSymmetric (conditionTypeFirstComparer g tg fg)) \<and>
   antiSymmetric (constFirstComparer eq v) \<and>
   (antiSymmetric c \<longrightarrow>
      antiSymmetric (nullableFirstComparer c) \<and> antiSymmetric (nullableLastComparer c) \<and>
      antiSymmetric (invertComparer c) \<and> antiSymmetric (mapComparer c m) \<and>
      antiSymmetric (arrayComparer c)) \<and>
   antiSymmetric compareNullableFirst \<and>
   antiSymmetric compareNanFirst \<and>
   antiSymmetric comparePositiveInfinityFirst \<and>
   antiSymmetric compareNegativeInfinityFirst \<and>
   antiSymmetric compareFiniteNumber \<and>
   antiSymmetric compareNumber \<and>
   antiSymmetric compareDate \<and>
   antiSymmetric compareBoolean \<and>
   antiSymmetric (orderComparer s) \<and>
   ((\<forall>comparer\<in>set cs. antiSymmetric comparer) \<longrightarrow> antiSymmetric (chainComparers cs)) \<and>
   (antiSymmetric (\<lambda>a b. sgn (lc a b)) \<longrightarrow>
      antiSymmetric (compareString lc) \<and> antiSymmetric (compareNumberOrString lc) \<and>
      antiSymmetric (compareStringNatural lc)) \<and>
   (antiSymmetric (\<lambda>a b. sgn (lcl loc a b)) \<longrightarrow> antiSymmetric (localeComparer lcl loc)) \<and>
   (antiSymmetric (\<lambda>a b. sgn (compare collator a b)) \<longrightarrow>
      antiSymmetric (collatorComparer collator)) \<and>
   (antiSymmetric kc \<and> (\<forall>k k'. kc k k' = 0 \<longrightarrow> k = k') \<and>
    compareFns (keyFn x) = Some cx \<and> antiSymmetric cx \<longrightarrow>
      (\<exists>r. groupComparer compareFns keyFn kc x y = Inr r \<and>
           groupComparer compareFns keyFn kc y x = Inr (- r)))"
proof -
  have group: "antiSymmetric kc \<and> (\<forall>k k'. kc k k' = 0 \<longrightarrow> k = k') \<and>
    compareFns (keyFn x) = Some cx \<and> antiSymmetric cx \<longrightarrow>
      (\<exists>r. groupComparer compareFns keyFn kc x y = Inr r \<and>
           groupComparer compareFns keyFn kc y x = Inr (- r))"
    using antiSymmetric_groupComparer [of kc compareFns keyFn x cx y] by blast
  show ?thesis
    by (intro conjI impI group antiSymmetric_compareEqual antiSymmetric_constFirstComparer
        antiSymmetric_compareNullableFirst antiSymmetric_compareNanFirst
        antiSymmetric_compareInfinityFirst antiSymmetric_compareFiniteNumber
        antiSymmetric_compareNumber antiSymmetric_compareDate antiSymmetric_compareBoolean
        antiSymmetric_orderComparer)
      (simp_all only: antiSymmetric_conditionFirstComparer
        antiSymmetric_conditionTypeFirstComparer antiSymmetric_nullableFirstComparer
        antiSymmetric_nullableLastComparer antiSymmetric_invertComparer
        antiSymmetric_mapComparer antiSymmetric_arrayComparer antiSymmetric_chainComparers
        antiSymmetric_compareString antiSymmetric_compareNumberOrString
        antiSymmetric_compareStringNatural antiSymmetric_localeComparer
        antiSymmetric_collatorComparer)
qed

lemma antiSymmetric_compareInteger: "antiSymmetric compareInteger"
  by (simp add: compareInteger_def antiSymmetric_mapComparer antiSymmetric_compareNumber)

lemma antiSymmetric_length_difference:
  "antiSymmetric (\<lambda>a b. sgn (int (length (a :: string)) - int (length (b :: string))))"
  unfolding antiSymmetric_def by (auto simp add: sgn_if)

text \<open>
  The theorem with each hypothesis discharged: \<open>compareNumber\<close> and its parts as the
  given comparers, the difference of the lengths as the host's collation, and the numeric
  keys \<open>item % 2\<close> ordered as numbers for \<open>groupComparer\<close>.
\<close>

theorem comparers_antiSymmetric_witness:
  "(antiSymmetric (compareEqual :: number Comparer) \<and> antiSymmetric compareFiniteNumber \<and>
    antiSymmetric (conditionFirstComparer isNaN compareEqual compareFiniteNumber)) \<and>
   (antiSymmetric compareNumber \<and>
    antiSymmetric (compareString (\<lambda>a b. int (length a) - int (length b))) \<and>
    antiSymmetric (conditionTypeFirstComparer isNumber compareNumber
      (compareString (\<lambda>a b. int (length a) - int (length b))))) \<and>
   (antiSymmetric (nullableFirstComparer compareNumber) \<and>
    antiSymmetric (nullableLastComparer compareNumber) \<and>
    antiSymmetric (invertComparer compareNumber) \<and>
    antiSymmetric (mapComparer compareNumber getTime) \<and>
    antiSymmetric (arrayComparer compareNumber)) \<and>
   (antiSymmetric compareNanFirst \<and>
    antiSymmetric (chainComparers [compareNanFirst, compareFiniteNumber])) \<and>
   (antiSymmetric (\<lambda>a b. sgn (int (length (a :: string)) - int (length (b :: string)))) \<and>
    antiSymmetric (compareNumberOrString (\<lambda>a b. int (length a) - int (length b))) \<and>
    antiSymmetric (compareStringNatural (\<lambda>a b. int (length a) - int (length b))) \<and>
    antiSymmetric (localeComparer (\<lambda>locale a b. int (length a) - int (length b)) ''en'') \<and>
    antiSymmetric (collatorComparer \<lparr>compare = \<lambda>a b. int (length a) - int (length b)\<rparr>)) \<and>
   (antiSymmetric compareInteger \<and>
    (\<forall>k k'. compareInteger k k' = 0 \<longleftrightarrow> k = k') \<and>
    [0 \<mapsto> compareInteger, 1 \<mapsto> invertComparer compareInteger] ((4::int) mod 2)
      = Some compareInteger \<and>
    (\<exists>r. groupComparer [0 \<mapsto> compareInteger, 1 \<mapsto> invertComparer compareInteger]
            (\<lambda>item. item mod 2) compareInteger 4 2 = Inr r \<and>
         groupComparer [0 \<mapsto> compareInteger, 1 \<mapsto> invertComparer compareInteger]
            (\<lambda>item. item mod 2) compareInteger 2 4 = Inr (- r)))"
proof -
  let ?lc = "\<lambda>a b :: string. int (length a) - int (length b)"
  let ?table = "[(0::int) \<mapsto> compareInteger, 1 \<mapsto> invertComparer compareInteger]"
  note inst = comparers_antiSymmetric [where p = isNaN and t = compareEqual
      and f = compareFiniteNumber and g = isNumber and tg = compareNumber
      and fg = "compareString ?lc" and c = compareNumber and m = getTime
      and cs = "[compareNanFirst, compareFiniteNumber]" and lc = ?lc
      and lcl = "\<lambda>locale. ?lc" and loc = "''en''" and collator = "\<lparr>compare = ?lc\<rparr>"
      and kc = compareInteger and keyFn = "\<lambda>item. item mod 2" and compareFns = ?table
      and x = 4 and y = 2 and cx = compareInteger and eq = strictEquals_number
      and v = PosInfinity and s = "[''a'']"]
  have equal: "antiSymmetric (compareEqual :: number Comparer)"
    by (rule inst [THEN conjunct1])
  have finite: "antiSymmetric compareFiniteNumber"
    and number: "antiSymmetric compareNumber"
    and nanFirst: "antiSymmetric compareNanFirst"
    using inst by blast+
  have conditionFirst: "antiSymmetric (conditionFirstComparer isNaN compareEqual compareFiniteNumber)"
    using inst equal finite by blast
  have collation: "antiSymmetric (\<lambda>a b. sgn (?lc a b))"
    by (rule antiSymmetric_length_difference)
  have strings: "antiSymmetric (compareString ?lc) \<and> antiSymmetric (compareNumberOrString ?lc) \<and>
      antiSymmetric (compareStringNatural ?lc)"
    using inst collation by blast
  have conditionTypeFirst:
    "antiSymmetric (conditionTypeFirstComparer isNumber compareNumber (compareString ?lc))"
    using inst number strings by blast
  have wrapped: "antiSymmetric (nullableFirstComparer compareNumber) \<and>
      antiSymmetric (nullableLastComparer compareNumber) \<and>
      antiSymmetric (invertComparer compareNumber) \<and>
      antiSymmetric (mapComparer compareNumber getTime) \<and>
      antiSymmetric (arrayComparer compareNumber)"
    using inst number by blast
  have "\<forall>comparer\<in>set [compareNanFirst, compareFiniteNumber]. antiSymmetric comparer"
    using nanFirst finite by simp
  then have chain: "antiSymmetric (chainComparers [compareNanFirst, compareFiniteNumber])"
    using inst by blast
  have localized: "antiSymmetric (localeComparer (\<lambda>locale. ?lc) ''en'')"
    using inst collation by blast
  have "antiSymmetric (\<lambda>a b. sgn (compare \<lparr>compare = ?lc\<rparr> a b))"
    using collation by simp
  then have collator: "antiSymmetric (collatorComparer \<lparr>compare = ?lc\<rparr>)"
    using inst by blast
  have integer: "antiSymmetric compareInteger"
    by (rule antiSymmetric_compareInteger)
  have separates: "\<forall>k k'. compareInteger k k' = 0 \<longleftrightarrow> k = k'"
    by (simp add: compareInteger_eq)
  have entry: "?table ((4::int) mod 2) = Some compareInteger"
    by simp
  have group: "\<exists>r. groupComparer ?table (\<lambda>item. item mod 2) compareInteger 4 2 = Inr r \<and>
      groupComparer ?table (\<lambda>item. item mod 2) compareInteger 2 4 = Inr (- r)"
    using inst integer separates entry by blast
  show ?thesis
    using equal finite number nanFirst conditionFirst collation strings conditionTypeFirst
      wrapped chain localized collator integer separates entry group
    by blast
qed

text \<open>
  The table of the example in the documentation of \<open>groupComparer\<close>,
  \<open>{even: compareNumber, odd: invertComparer(compareNumber)}\<close>, with the key comparer
  \<open>compareEqual\<close>: all three comparers are anti-symmetric, and the results on \<open>(2, 1)\<close>
  and on \<open>(1, 2)\<close> are both \<open>1\<close>.
\<close>

theorem groupComparer_antiSymmetric_counterexample:
  "antiSymmetric (compareEqual :: string Comparer) \<and>
   antiSymmetric compareInteger \<and>
   antiSymmetric (invertComparer compareInteger) \<and>
   [''even'' \<mapsto> compareInteger, ''odd'' \<mapsto> invertComparer compareInteger] (parity 2)
     = Some compareInteger \<and>
   [''even'' \<mapsto> compareInteger, ''odd'' \<mapsto> invertComparer compareInteger] (parity 1)
     = Some (invertComparer compareInteger) \<and>
   groupComparer [''even'' \<mapsto> compareInteger, ''odd'' \<mapsto> invertComparer compareInteger]
     parity compareEqual 2 1 = Inr 1 \<and>
   groupComparer [''even'' \<mapsto> compareInteger, ''odd'' \<mapsto> invertComparer compareInteger]
     parity compareEqual 1 2 = Inr 1 \<and>
   (1::int) \<noteq> - 1"
proof -
  have "antiSymmetric (invertComparer compareInteger)"
    by (rule antiSymmetric_invertComparer) (rule antiSymmetric_compareInteger)
  then show ?thesis
    by (simp add: antiSymmetric_compareEqual antiSymmetric_compareInteger groupComparer_def
        parity_def compareEqual_def compareInteger_eq invertComparer_def)
qed

section \<open>Reflexivity of the exported comparers\<close>

text \<open>
  C10. Every exported comparer returns \<open>0\<close> on a value and itself: the constant ones,
  among them \<open>compareNumber\<close> on not-a-number and on the infinities, \<open>compareBoolean\<close>
  and \<open>orderComparer\<close> for any ordering, those that call the host's collation when the
  collation returns \<open>0\<close> on a string and itself, and those made by a combinator from
  reflexive comparers (for \<open>groupComparer\<close>, on a value whose key has an entry in the
  table).
\<close>

theorem comparers_reflexive:
  "reflexive compareEqual \<and>
   (reflexive t \<and> reflexive f \<longrightarrow> reflexive (conditionFirstComparer p t f)) \<and>
   (reflexive tg \<and> reflexive fg \<longrightarrow> reflexive (conditionTypeFirstComparer g tg fg)) \<and>
   reflexive (constFirstComparer eq v) \<and>
   (reflexive c \<longrightarrow>
      reflexive (nullableFirstComparer c) \<and> reflexive (nullableLastComparer c) \<and>
      reflexive (invertComparer c) \<and> reflexive (mapComparer c m) \<and>
      reflexive (arrayComparer c)) \<and>
   reflexive compareNullableFirst \<and>
   reflexive compareNanFirst \<and>
   reflexive comparePositiveInfinityFirst \<and>
   reflexive compareNegativeInfinityFirst \<and>
   reflexive compareFiniteNumber \<and>
   reflexive compareNumber \<and>
   compareNumber NaN NaN = 0 \<and>
   compareNumber NegInfinity NegInfinity = 0 \<and>
   compareNumber PosInfinity PosInfinity = 0 \<and>
   reflexive compareDate \<and>
   reflexive compareBoolean \<and>
   reflexive (orderComparer s) \<and>
   ((\<forall>comparer\<in>set cs. reflexive comparer) \<longrightarrow> reflexive (chainComparers cs)) \<and>
   (reflexive lc \<longrightarrow>
      reflexive (compareString lc) \<and> reflexive (compareNumberOrString lc) \<and>
      reflexive (compareStringNatural lc)) \<and>
   (reflexive (lcl loc) \<longrightarrow> reflexive (localeComparer lcl loc)) \<and>
   (reflexive (compare collator) \<longrightarrow> reflexive (collatorComparer collator)) \<and>
   (reflexive kc \<and> compareFns (keyFn x) = Some cx \<and> reflexive cx \<longrightarrow>
      groupComparer compareFns keyFn kc x x = Inr 0)"
proof -
  have group: "reflexive kc \<and> compareFns (keyFn x) = Some cx \<and> reflexive cx \<longrightarrow>
      groupComparer compareFns keyFn kc x x = Inr 0"
    using reflexive_groupComparer [of kc compareFns keyFn x cx] by blast
  show ?thesis
    by (intro conjI impI group reflexive_compareEqual reflexive_constFirstComparer
        reflexive_compareNullableFirst reflexive_compareNanFirst
        reflexive_compareInfinityFirst reflexive_compareFiniteNumber
        reflexive_compareNumber reflexive_compareDate reflexive_compareBoolean
        reflexive_orderComparer compareNumber_same_class)
      (simp_all only: reflexive_conditionFirstComparer
        reflexive_conditionTypeFirstComparer reflexive_nullableFirstComparer
        reflexive_nullableLastComparer reflexive_invertComparer
        reflexive_mapComparer reflexive_arrayComparer reflexive_chainComparers
        reflexive_compareString reflexive_compareNumberOrString
        reflexive_compareStringNatural reflexive_localeComparer
        reflexive_collatorComparer)
qed


lemma reflexive_compareInteger: "reflexive compareInteger"
  by (simp add: compareInteger_def reflexive_mapComparer reflexive_compareNumber)

text \<open>
  The theorem with each hypothesis discharged, on the comparers of the witness above and
  the table and key order of the library's test of \<open>groupComparer\<close>.
\<close>

theorem comparers_reflexive_witness:
  "(reflexive (compareEqual :: number Comparer) \<and> reflexive compareFiniteNumber \<and>
    reflexive (conditionFirstComparer isNaN compareEqual compareFiniteNumber) \<and>
    conditionFirstComparer isNaN compareEqual compareFiniteNumber NaN NaN = 0) \<and>
   (reflexive compareNumber \<and>
    reflexive (compareString (\<lambda>a b. int (length a) - int (length b))) \<and>
    reflexive (conditionTypeFirstComparer isNumber compareNumber
      (compareString (\<lambda>a b. int (length a) - int (length b))))) \<and>
   (reflexive (nullableFirstComparer compareNumber) \<and>
    reflexive (nullableLastComparer compareNumber) \<and>
    reflexive (invertComparer compareNumber) \<and>
    reflexive (mapComparer compareNumber getTime) \<and>
    reflexive (arrayComparer compareNumber) \<and>
    arrayComparer compareNumber [NaN, PosInfinity] [NaN, PosInfinity] = 0) \<and>
   (reflexive compareNanFirst \<and>
    reflexive (chainComparers [compareNanFirst, compareFiniteNumber])) \<and>
   (reflexive (\<lambda>a b. int (length (a :: string)) - int (length (b :: string))) \<and>
    reflexive (compareNumberOrString (\<lambda>a b. int (length a) - int (length b))) \<and>
    reflexive (compareStringNatural (\<lambda>a b. int (length a) - int (length b))) \<and>
    compareStringNatural (\<lambda>a b. int (length a) - int (length b)) ''a10'' ''a10'' = 0 \<and>
    reflexive (localeComparer (\<lambda>locale a b. int (length a) - int (length b)) ''en'') \<and>
    reflexive (collatorComparer \<lparr>compare = \<lambda>a b. int (length a) - int (length b)\<rparr>)) \<and>
   (reflexive (orderComparer [''even'', ''odd'']) \<and>
    [''even'' \<mapsto> compareInteger, ''odd'' \<mapsto> compareInteger] (parity 3) = Some compareInteger \<and>
    reflexive compareInteger \<and>
    groupComparer [''even'' \<mapsto> compareInteger, ''odd'' \<mapsto> compareInteger] parity
      (orderComparer [''even'', ''odd'']) 3 3 = Inr 0)"
proof -
  let ?lc = "\<lambda>a b :: string. int (length a) - int (length b)"
  let ?table = "[''even'' \<mapsto> compareInteger, ''odd'' \<mapsto> compareInteger]"
  note inst = comparers_reflexive [where p = isNaN and t = compareEqual
      and f = compareFiniteNumber and g = isNumber and tg = compareNumber
      and fg = "compareString ?lc" and c = compareNumber and m = getTime
      and cs = "[compareNanFirst, compareFiniteNumber]" and lc = ?lc
      and lcl = "\<lambda>locale. ?lc" and loc = "''en''" and collator = "\<lparr>compare = ?lc\<rparr>"
      and kc = "orderComparer [''even'', ''odd'']" and keyFn = parity and compareFns = ?table
      and x = 3 and cx = compareInteger and eq = strictEquals_number
      and v = PosInfinity and s = "[''even'', ''odd'']"]
  have equal: "reflexive (compareEqual :: number Comparer)"
    by (rule inst [THEN conjunct1])
  have finite: "reflexive compareFiniteNumber"
    and number: "reflexive compareNumber"
    and nanFirst: "reflexive compareNanFirst"
    and order: "reflexive (orderComparer [''even'', ''odd''])"
    using inst by blast+
  have conditionFirst: "reflexive (conditionFirstComparer isNaN compareEqual compareFiniteNumber)"
    using inst equal finite by blast
  then have conditionFirst_NaN:
    "conditionFirstComparer isNaN compareEqual compareFiniteNumber NaN NaN = 0"
    by (rule reflexiveD)
  have collation: "reflexive ?lc"
    by (simp add: reflexive_def)
  have strings: "reflexive (compareString ?lc) \<and> reflexive (compareNumberOrString ?lc) \<and>
      reflexive (compareStringNatural ?lc)"
    using inst collation by blast
  then have natural: "compareStringNatural ?lc ''a10'' ''a10'' = 0"
    by (blast intro: reflexiveD)
  have conditionTypeFirst:
    "reflexive (conditionTypeFirstComparer isNumber compareNumber (compareString ?lc))"
    using inst number strings by blast
  have wrapped: "reflexive (nullableFirstComparer compareNumber) \<and>
      reflexive (nullableLastComparer compareNumber) \<and>
      reflexive (invertComparer compareNumber) \<and>
      reflexive (mapComparer compareNumber getTime) \<and>
      reflexive (arrayComparer compareNumber)"
    using inst number by blast
  then have arrays: "arrayComparer compareNumber [NaN, PosInfinity] [NaN, PosInfinity] = 0"
    by (blast intro: reflexiveD)
  have "\<forall>comparer\<in>set [compareNanFirst, compareFiniteNumber]. reflexive comparer"
    using nanFirst finite by simp
  then have chain: "reflexive (chainComparers [compareNanFirst, compareFiniteNumber])"
    using inst by blast
  have localized: "reflexive (localeComparer (\<lambda>locale. ?lc) ''en'')"
    using inst collation by blast
  have "reflexive (compare \<lparr>compare = ?lc\<rparr>)"
    using collation by simp
  then have collator: "reflexive (collatorComparer \<lparr>compare = ?lc\<rparr>)"
    using inst by blast
  have integer: "reflexive compareInteger"
    by (rule reflexive_compareInteger)
  have entry: "?table (parity 3) = Some compareInteger"
    by (simp add: parity_def)
  have group: "groupComparer ?table parity (orderComparer [''even'', ''odd'']) 3 3 = Inr 0"
    using inst order integer entry by blast
  show ?thesis
    using equal finite number nanFirst conditionFirst conditionFirst_NaN collation strings
      natural conditionTypeFirst wrapped arrays chain localized collator order integer entry
      group
    by blast
qed

end
